theory Spec2Isabelle
  imports Main "HOL-Library.AList"
begin

section \<open>The task sender (scripts/send\_task.py)\<close>

text \<open>
  The script builds a task dictionary, checks the target role against the project's
  configuration and writes the dictionary as JSON text into the project's messaging
  directory. The embedding below follows the two functions \<open>create_task_json\<close> and
  \<open>send_task\<close> statement by statement. What the script obtains from outside (the
  configuration loader, the random identifier, the clock, the payload file) is a field of
  the record \<open>env\<close>; the directory tree it writes to is the record \<open>fs\<close>, passed in and
  returned.
\<close>

subsection \<open>JSON values and Python dictionaries\<close>

text \<open>
  A Python object that \<open>json\<close> can hold. A dictionary is an association list in insertion
  order, as Python keeps it. Floating-point numbers are not part of the embedding.
\<close>

datatype json =
    JNull
  | JBool bool
  | JInt int
  | JStr string
  | JArr "json list"
  | JObj "(string \<times> json) list"

type_synonym dict = "(string \<times> json) list"

text \<open>
  \<open>d.update(other)\<close> for a mapping \<open>other\<close>: every pair of \<open>other\<close>, in order, is stored
  into \<open>d\<close>; a key already present keeps its position and takes the new value, a new key
  goes to the end.
\<close>

definition dict_update :: "dict \<Rightarrow> dict \<Rightarrow> dict" where
  "dict_update other d = fold (\<lambda>kv. AList.update (fst kv) (snd kv)) other d"

subsection \<open>Serialisation: \<open>json.dump(task, f, indent=2)\<close>\<close>

definition hex_digit :: "nat \<Rightarrow> char" where
  "hex_digit n = (''0123456789abcdef'') ! n"

text \<open>
  The encoder escapes with \<open>ensure_ascii\<close> on: the quote, the backslash and the five
  short escapes, every other character outside the range from space to tilde as
  \<open>\u00XX\<close> with lower-case hexadecimal digits.
\<close>

definition escape_char :: "char \<Rightarrow> string" where
  "escape_char c =
     (if c = CHR 0x22 then [CHR 0x5C, CHR 0x22]
      else if c = CHR 0x5C then [CHR 0x5C, CHR 0x5C]
      else if c = CHR 0x08 then [CHR 0x5C, CHR ''b'']
      else if c = CHR 0x0C then [CHR 0x5C, CHR ''f'']
      else if c = CHR 0x0A then [CHR 0x5C, CHR ''n'']
      else if c = CHR 0x0D then [CHR 0x5C, CHR ''r'']
      else if c = CHR 0x09 then [CHR 0x5C, CHR ''t'']
      else if 32 \<le> (of_char c :: nat) \<and> (of_char c :: nat) \<le> 126 then [c]
      else [CHR 0x5C, CHR ''u'', CHR ''0'', CHR ''0'',
            hex_digit (of_char c div 16), hex_digit (of_char c mod 16)])"

definition encode_basestring_ascii :: "string \<Rightarrow> string" where
  "encode_basestring_ascii s = [CHR 0x22] @ concat (map escape_char s) @ [CHR 0x22]"

fun digits_of :: "nat \<Rightarrow> nat \<Rightarrow> string" where
  "digits_of 0 n = []"
| "digits_of (Suc fuel) n =
     (if n < 10 then [hex_digit n] else digits_of fuel (n div 10) @ [hex_digit (n mod 10)])"

definition int_repr :: "int \<Rightarrow> string" where
  "int_repr i = (if i < 0 then CHR ''-'' # digits_of (Suc (nat (- i))) (nat (- i))
                 else digits_of (Suc (nat i)) (nat i))"

definition newline_indent :: "nat \<Rightarrow> string" where
  "newline_indent lvl = CHR 0x0A # replicate (2 * lvl) CHR '' ''"

text \<open>
  The encoder proper, at nesting level \<open>lvl\<close>: an empty container is \<open>[]\<close> or \<open>{}\<close>;
  otherwise the items follow one per line, indented by two spaces per level, separated by
  a comma, with \<open>: \<close> between a key and its value.
\<close>

fun iterencode :: "nat \<Rightarrow> json \<Rightarrow> string"
and iterencode_list :: "nat \<Rightarrow> json list \<Rightarrow> string"
and iterencode_dict :: "nat \<Rightarrow> dict \<Rightarrow> string" where
  "iterencode lvl JNull = ''null''"
| "iterencode lvl (JBool b) = (if b then ''true'' else ''false'')"
| "iterencode lvl (JInt i) = int_repr i"
| "iterencode lvl (JStr s) = encode_basestring_ascii s"
| "iterencode lvl (JArr []) = ''[]''"
| "iterencode lvl (JArr (x # xs)) =
     ''['' @ newline_indent (Suc lvl) @ iterencode_list (Suc lvl) (x # xs)
       @ newline_indent lvl @ '']''"
| "iterencode lvl (JObj []) = ''{}''"
| "iterencode lvl (JObj (kv # kvs)) =
     ''{'' @ newline_indent (Suc lvl) @ iterencode_dict (Suc lvl) (kv # kvs)
       @ newline_indent lvl @ ''}''"
| "iterencode_list lvl [] = []"
| "iterencode_list lvl [x] = iterencode lvl x"
| "iterencode_list lvl (x # y # ys) =
     iterencode lvl x @ '','' @ newline_indent lvl @ iterencode_list lvl (y # ys)"
| "iterencode_dict lvl [] = []"
| "iterencode_dict lvl [(k, v)] = encode_basestring_ascii k @ '': '' @ iterencode lvl v"
| "iterencode_dict lvl ((k, v) # kv # kvs) =
     encode_basestring_ascii k @ '': '' @ iterencode lvl v @ '','' @ newline_indent lvl
       @ iterencode_dict lvl (kv # kvs)"

definition json_dumps :: "dict \<Rightarrow> string" where
  "json_dumps task = iterencode 0 (JObj task)"

subsection \<open>Deserialisation: \<open>json.loads\<close>\<close>





















subsection \<open>The environment of the script\<close>

text \<open>
  A path is its list of components (\<open>Path(base) / "tasks"\<close> appends one). An exception
  raised by a collaborator is carried as its text.
\<close>

type_synonym path = "string list"
type_synonym exn = string

text \<open>
  The configuration the loader returns: \<open>config.get("enabled_roles", [])\<close> tolerates a
  missing key, \<open>config["messaging"]["base_dir"]\<close> does not.
\<close>

record config =
  enabled_roles :: "string list option"
  messaging_base_dir :: "path option"

text \<open>
  \<open>uuid4\<close> is \<open>str(uuid.uuid4())\<close>, \<open>utcnow\<close> is \<open>datetime.utcnow().isoformat()\<close>,
  \<open>load_config_by_project_name\<close> is the loader imported from the orchestrator package
  (project name and configuration directory to a configuration, or the exception it
  raises), and \<open>load_payload\<close> is \<open>open(payload_file, "r")\<close> followed by \<open>json.load\<close>:
  the mapping the file holds, or the exception raised while opening or decoding it.
\<close>

record env =
  uuid4 :: string
  utcnow :: string
  load_config_by_project_name :: "string \<Rightarrow> string \<Rightarrow> exn + config"
  load_payload :: "string \<Rightarrow> exn + dict"

datatype error =
    ConfigLoaderRaised exn
  | InvalidRole string
  | PayloadRaised exn
  | KeyError string
  | FileExistsError path
  | IsADirectoryError path
  | FileNotFoundError path

subsection \<open>The directory tree\<close>

record fs =
  files :: "path \<rightharpoonup> string"
  dirs :: "path set"

datatype fs_op = Mkdir path | OpenW path | WriteText path string

definition ancestors :: "path \<Rightarrow> path list" where
  "ancestors p = map (\<lambda>n. take n p) [1..<Suc (length p)]"

definition is_dir :: "fs \<Rightarrow> path \<Rightarrow> bool" where
  "is_dir s p = (p = [] \<or> p \<in> dirs s)"

text \<open>
  \<open>Mkdir p\<close> is \<open>p.mkdir(parents=True, exist_ok=True)\<close>: it fails when \<open>p\<close> or one of
  its ancestors is a regular file, and otherwise makes all of them directories.
  \<open>OpenW p\<close> is \<open>open(p, "w")\<close>: it fails on a directory and in a missing directory, and
  otherwise creates the file or truncates it to the empty text.
  \<open>WriteText p t\<close> appends \<open>t\<close> to the open file.
\<close>

fun fs_step :: "fs_op \<Rightarrow> fs \<Rightarrow> error + fs" where
  "fs_step (Mkdir p) s =
     (if list_ex (\<lambda>q. files s q \<noteq> None) (ancestors p) then Inl (FileExistsError p)
      else Inr (s\<lparr>dirs := dirs s \<union> set (ancestors p)\<rparr>))"
| "fs_step (OpenW p) s =
     (if p \<in> dirs s then Inl (IsADirectoryError p)
      else if \<not> is_dir s (butlast p) then Inl (FileNotFoundError p)
      else Inr (s\<lparr>files := (files s)(p \<mapsto> [])\<rparr>))"
| "fs_step (WriteText p t) s =
     (case files s p of
        None \<Rightarrow> Inl (FileNotFoundError p)
      | Some old \<Rightarrow> Inr (s\<lparr>files := (files s)(p \<mapsto> old @ t)\<rparr>))"

text \<open>Operations run in order; the first failure stops the run and keeps what was done.\<close>

fun run_ops :: "fs_op list \<Rightarrow> fs \<Rightarrow> error option \<times> fs" where
  "run_ops [] s = (None, s)"
| "run_ops (x # xs) s =
     (case fs_step x s of Inl e \<Rightarrow> (Some e, s) | Inr s' \<Rightarrow> run_ops xs s')"

subsection \<open>\<open>create_task_json\<close>\<close>

definition base_task :: "env \<Rightarrow> string \<Rightarrow> string \<Rightarrow> string \<Rightarrow> dict" where
  "base_task ev project role description =
     [(''task_id'', JStr (uuid4 ev)),
      (''timestamp'', JStr (utcnow ev)),
      (''from'', JStr ''user''),
      (''to'', JStr role),
      (''type'', JStr ''request''),
      (''project'', JStr project),
      (''payload'', JObj [(''description'', JStr description)])]"

text \<open>\<open>task["payload"].update(payload)\<close>: only the dictionary under \<open>payload\<close> changes.\<close>

fun update_payload :: "dict \<Rightarrow> json \<Rightarrow> json" where
  "update_payload payload (JObj d) = JObj (dict_update payload d)"
| "update_payload payload v = v"

text \<open>\<open>if payload_file:\<close> is false for \<open>None\<close> and for the empty string.\<close>

fun truthy :: "string option \<Rightarrow> bool" where
  "truthy None = False"
| "truthy (Some s) = (s \<noteq> [])"

definition create_task_json ::
  "env \<Rightarrow> string \<Rightarrow> string \<Rightarrow> string \<Rightarrow> string option \<Rightarrow> error + dict" where
  "create_task_json ev project role description payload_file =
     (let task = base_task ev project role description in
      if truthy payload_file then
        (case load_payload ev (the payload_file) of
           Inl x \<Rightarrow> Inl (PayloadRaised x)
         | Inr payload \<Rightarrow> Inr (AList.map_entry ''payload'' (update_payload payload) task))
      else Inr task)"

subsection \<open>\<open>send_task\<close>\<close>

fun join :: "string \<Rightarrow> string list \<Rightarrow> string" where
  "join sep [] = []"
| "join sep [x] = x"
| "join sep (x # y # ys) = x @ sep @ join sep (y # ys)"

definition invalid_role_message :: "string \<Rightarrow> string list \<Rightarrow> string" where
  "invalid_role_message role roles =
     ''Invalid role '' @ [CHR 0x27] @ role @ [CHR 0x27] @ ''. Must be one of: ''
       @ join '', '' roles"

definition get_enabled_roles :: "config \<Rightarrow> string list" where
  "get_enabled_roles cfg = (case enabled_roles cfg of None \<Rightarrow> [] | Some rs \<Rightarrow> rs)"

text \<open>The three effects of lines 102 to 106, in order.\<close>

definition write_task_ops :: "path \<Rightarrow> path \<Rightarrow> string \<Rightarrow> fs_op list" where
  "write_task_ops tasks_dir task_file text =
     [Mkdir tasks_dir, OpenW task_file, WriteText task_file text]"

definition send_task ::
  "env \<Rightarrow> fs \<Rightarrow> string \<Rightarrow> string \<Rightarrow> string \<Rightarrow> string option \<Rightarrow> string
     \<Rightarrow> (error + string) \<times> fs" where
  "send_task ev s project role description payload_file config_dir =
     (case load_config_by_project_name ev project config_dir of
        Inl x \<Rightarrow> (Inl (ConfigLoaderRaised x), s)
      | Inr cfg \<Rightarrow>
          if role \<notin> set (get_enabled_roles cfg)
          then (Inl (InvalidRole (invalid_role_message role (get_enabled_roles cfg))), s)
          else
            (case create_task_json ev project role description payload_file of
               Inl e \<Rightarrow> (Inl e, s)
             | Inr task \<Rightarrow>
                 (case messaging_base_dir cfg of
                    None \<Rightarrow> (Inl (KeyError ''messaging''), s)
                  | Some base \<Rightarrow>
                      (case map_of task ''task_id'' of
                         Some (JStr task_id) \<Rightarrow>
                           (let tasks_dir = base @ [''tasks''];
                                task_file = tasks_dir @ [task_id @ ''.json'']
                            in case run_ops
                                 (write_task_ops tasks_dir task_file (json_dumps task)) s of
                                 (Some e, s') \<Rightarrow> (Inl e, s')
                               | (None, s') \<Rightarrow> (Inr task_id, s'))
                       | _ \<Rightarrow> (Inl (KeyError ''task_id''), s)))))"

subsection \<open>A concrete project\<close>

definition demo_config :: config where
  "demo_config =
     \<lparr>enabled_roles = Some [''architect'', ''builder''],
      messaging_base_dir = Some [''var'', ''demo'']\<rparr>"

definition demo_env :: env where
  "demo_env =
     \<lparr>uuid4 = ''123e4567-e89b-42d3-a456-426614174000'',
      utcnow = ''2024-05-01T12:00:00'',
      load_config_by_project_name =
        (\<lambda>project config_dir.
           if project = ''demo'' then Inr demo_config else Inl ''FileNotFoundError''),
      load_payload =
        (\<lambda>f. if f = ''extra.json''
              then Inr [(''description'', JStr ''from file''), (''priority'', JInt 3)]
              else Inl ''FileNotFoundError'')\<rparr>"

definition empty_fs :: fs where
  "empty_fs = \<lparr>files = Map.empty, dirs = {}\<rparr>"

definition demo_task_file :: path where
  "demo_task_file = [''var'', ''demo'', ''tasks'', ''123e4567-e89b-42d3-a456-426614174000.json'']"

definition demo_task :: dict where
  "demo_task =
     [(''task_id'', JStr ''123e4567-e89b-42d3-a456-426614174000''),
      (''timestamp'', JStr ''2024-05-01T12:00:00''),
      (''from'', JStr ''user''),
      (''to'', JStr ''builder''),
      (''type'', JStr ''request''),
      (''project'', JStr ''demo''),
      (''payload'', JObj [(''description'', JStr ''from file''), (''priority'', JInt 3)])]"

definition top_level_fields :: "string list" where
  "top_level_fields =
     [''task_id'', ''timestamp'', ''from'', ''to'', ''type'', ''project'', ''payload'']"

definition demo_plain_task :: dict where
  "demo_plain_task = base_task demo_env ''demo'' ''builder'' ''build it''"

definition demo_tasks_dir :: path where
  "demo_tasks_dir = [''var'', ''demo'', ''tasks'']"

definition occupied_fs :: fs where
  "occupied_fs =
     \<lparr>files = [demo_task_file \<mapsto> ''old record''],
      dirs = {[''var''], [''var'', ''demo''], [''var'', ''demo'', ''tasks'']}\<rparr>"

section \<open>Properties of the task dictionary\<close>

lemma map_of_map_entry_other:
  "k \<noteq> k' \<Longrightarrow> map_of (AList.map_entry k f al) k' = map_of al k'"
  by (induction al) auto

lemma map_fst_map_entry: "map fst (AList.map_entry k f al) = map fst al"
  by (induction al) auto

lemma dict_update_keeps_key: "k \<in> fst ` set d \<Longrightarrow> k \<in> fst ` set (dict_update other d)"
  unfolding dict_update_def
proof (induction other arbitrary: d)
  case Nil
  then show ?case by simp
next
  case (Cons kv other)
  have "k \<in> fst ` set (AList.update (fst kv) (snd kv) d)"
    using Cons.prems by (simp add: dom_update)
  then show ?case using Cons.IH by simp
qed

lemma create_task_json_cases:
  assumes "create_task_json ev project role description payload_file = Inr task"
  shows "task = base_task ev project role description
       \<or> (\<exists>payload. task = AList.map_entry ''payload'' (update_payload payload)
                              (base_task ev project role description))"
  using assms unfolding create_task_json_def
  by (auto simp: Let_def split: if_splits sum.splits)

lemma demo_create:
  "create_task_json demo_env ''demo'' ''builder'' ''build it'' (Some ''extra.json'')
     = Inr demo_task"
  by (simp add: create_task_json_def demo_env_def base_task_def dict_update_def demo_task_def)

lemma demo_create_plain:
  "create_task_json demo_env ''demo'' ''builder'' ''build it'' None
     = Inr (base_task demo_env ''demo'' ''builder'' ''build it'')"
  by (simp add: create_task_json_def)

text \<open>
  Claim C10: every record that \<open>create_task_json\<close> returns has the field \<open>from\<close> equal
  to the string \<open>user\<close>, with or without a payload file.
\<close>

theorem create_task_json_from_user:
  assumes "create_task_json ev project role description payload_file = Inr task"
  shows "map_of task ''from'' = Some (JStr ''user'')"
  using create_task_json_cases [OF assms]
  by (auto simp: base_task_def map_of_map_entry_other)

theorem create_task_json_from_user_witness:
  "create_task_json demo_env ''demo'' ''builder'' ''build it'' (Some ''extra.json'')
     = Inr demo_task
   \<and> map_of demo_task ''from'' = Some (JStr ''user'')"
  using create_task_json_from_user [OF demo_create] demo_create by simp

text \<open>
  Claim C9: merging a payload file changes only the dictionary under \<open>payload\<close>. Whenever
  \<open>create_task_json\<close> returns a record with a payload file, it also returns one without,
  and both have the same top-level keys in the same order and the same values under
  \<open>task_id\<close>, \<open>timestamp\<close>, \<open>from\<close>, \<open>to\<close>, \<open>type\<close> and \<open>project\<close>, whatever keys the
  payload file holds (the identifier and the time are those of the same environment).
\<close>

theorem payload_merge_frame:
  assumes "create_task_json ev project role description payload_file = Inr task"
  shows "\<exists>task0. create_task_json ev project role description None = Inr task0
           \<and> map fst task = map fst task0
           \<and> map_of task ''task_id'' = map_of task0 ''task_id''
           \<and> map_of task ''timestamp'' = map_of task0 ''timestamp''
           \<and> map_of task ''from'' = map_of task0 ''from''
           \<and> map_of task ''to'' = map_of task0 ''to''
           \<and> map_of task ''type'' = map_of task0 ''type''
           \<and> map_of task ''project'' = map_of task0 ''project''"
proof -
  have plain: "create_task_json ev project role description None
                 = Inr (base_task ev project role description)"
    by (simp add: create_task_json_def)
  from create_task_json_cases [OF assms] show ?thesis
    unfolding plain by (auto simp: map_of_map_entry_other map_fst_map_entry)
qed

theorem payload_merge_frame_witness:
  "create_task_json demo_env ''demo'' ''builder'' ''build it'' (Some ''extra.json'')
     = Inr demo_task
   \<and> (\<exists>task0. create_task_json demo_env ''demo'' ''builder'' ''build it'' None = Inr task0
           \<and> map fst demo_task = map fst task0
           \<and> map_of demo_task ''task_id'' = map_of task0 ''task_id''
           \<and> map_of demo_task ''timestamp'' = map_of task0 ''timestamp''
           \<and> map_of demo_task ''from'' = map_of task0 ''from''
           \<and> map_of demo_task ''to'' = map_of task0 ''to''
           \<and> map_of demo_task ''type'' = map_of task0 ''type''
           \<and> map_of demo_task ''project'' = map_of task0 ''project'')"
  using payload_merge_frame [OF demo_create] demo_create by simp

text \<open>
  Claim C6: every record the producer builds has exactly the top-level fields \<open>task_id\<close>,
  \<open>timestamp\<close>, \<open>from\<close>, \<open>to\<close>, \<open>type\<close>, \<open>project\<close>, \<open>payload\<close> (which the encoder
  writes out in this order); the value under \<open>payload\<close> is a dictionary with a key
  \<open>description\<close>; and the value under \<open>type\<close> is the string \<open>request\<close>.
\<close>

theorem task_record_shape:
  assumes "create_task_json ev project role description payload_file = Inr task"
  shows "map fst task = top_level_fields
       \<and> (\<exists>payload. map_of task ''payload'' = Some (JObj payload)
                    \<and> ''description'' \<in> fst ` set payload)
       \<and> map_of task ''type'' = Some (JStr ''request'')"
  using create_task_json_cases [OF assms]
proof
  assume "task = base_task ev project role description"
  then show ?thesis by (simp add: base_task_def top_level_fields_def)
next
  assume "\<exists>payload. task = AList.map_entry ''payload'' (update_payload payload)
                              (base_task ev project role description)"
  then obtain payload where
    t: "task = AList.map_entry ''payload'' (update_payload payload)
                 (base_task ev project role description)" by blast
  have "''description'' \<in> fst ` set (dict_update payload [(''description'', JStr description)])"
    by (rule dict_update_keeps_key) simp
  then show ?thesis
    unfolding t by (simp add: base_task_def top_level_fields_def)
qed

theorem task_record_shape_witness:
  "create_task_json demo_env ''demo'' ''builder'' ''build it'' (Some ''extra.json'')
     = Inr demo_task
   \<and> map fst demo_task = top_level_fields
   \<and> (\<exists>payload. map_of demo_task ''payload'' = Some (JObj payload)
                    \<and> ''description'' \<in> fst ` set payload)
   \<and> map_of demo_task ''type'' = Some (JStr ''request'')"
  using task_record_shape [OF demo_create] demo_create by simp

section \<open>Properties of \<open>send_task\<close>\<close>

lemma ancestors_self: "p \<noteq> [] \<Longrightarrow> p \<in> set (ancestors p)"
proof -
  assume "p \<noteq> []"
  then have "length p \<in> set [1..<Suc (length p)]" by (cases p) auto
  then have "take (length p) p \<in> set (ancestors p)"
    unfolding ancestors_def by (simp only: set_map image_eqI)
  then show ?thesis by simp
qed

lemma ancestors_length: "q \<in> set (ancestors p) \<Longrightarrow> length q \<le> length p"
  unfolding ancestors_def by auto

lemma child_not_ancestor: "d @ [x] \<notin> set (ancestors d)"
  using ancestors_length [of "d @ [x]" d] by auto

lemma task_id_of_created:
  assumes "create_task_json ev project role description payload_file = Inr task"
  shows "map_of task ''task_id'' = Some (JStr (uuid4 ev))"
  using create_task_json_cases [OF assms]
  by (auto simp: base_task_def map_of_map_entry_other)

text \<open>The run of the three operations, when none of them is refused.\<close>

lemma run_write_task_ops:
  assumes free: "\<not> list_ex (\<lambda>q. files s q \<noteq> None) (ancestors d)"
    and nodir: "d @ [x] \<notin> dirs s"
    and ne: "d \<noteq> []"
  shows "run_ops (write_task_ops d (d @ [x]) t) s =
           (None, s\<lparr>dirs := dirs s \<union> set (ancestors d),
                     files := (files s)(d @ [x] \<mapsto> t)\<rparr>)"
  using assms child_not_ancestor [of d x] ancestors_self [OF ne]
  by (simp add: write_task_ops_def is_dir_def)

lemma send_task_success:
  assumes cfg: "load_config_by_project_name ev project config_dir = Inr cfg"
    and role: "role \<in> set (get_enabled_roles cfg)"
    and task: "create_task_json ev project role description payload_file = Inr task"
    and base: "messaging_base_dir cfg = Some base"
    and free: "\<not> list_ex (\<lambda>q. files s q \<noteq> None) (ancestors (base @ [''tasks'']))"
    and nodir: "base @ [''tasks'', uuid4 ev @ ''.json''] \<notin> dirs s"
  shows "send_task ev s project role description payload_file config_dir =
           (Inr (uuid4 ev),
            s\<lparr>dirs := dirs s \<union> set (ancestors (base @ [''tasks''])),
              files := (files s)(base @ [''tasks'', uuid4 ev @ ''.json'']
                                   \<mapsto> json_dumps task)\<rparr>)"
proof -
  have run: "run_ops (write_task_ops (base @ [''tasks''])
                        ((base @ [''tasks'']) @ [uuid4 ev @ ''.json'']) (json_dumps task)) s =
           (None, s\<lparr>dirs := dirs s \<union> set (ancestors (base @ [''tasks''])),
                     files := (files s)((base @ [''tasks'']) @ [uuid4 ev @ ''.json'']
                                          \<mapsto> json_dumps task)\<rparr>)"
    by (rule run_write_task_ops) (use free nodir in simp_all)
  show ?thesis
    unfolding send_task_def
    using cfg role task base task_id_of_created [OF task] run
    by (simp add: Let_def)
qed

text \<open>Conversely, a returned identifier means every step went through.\<close>

lemma send_task_returns:
  assumes "send_task ev s project role description payload_file config_dir = (Inr tid, s')"
  shows "\<exists>cfg task base.
           load_config_by_project_name ev project config_dir = Inr cfg
         \<and> role \<in> set (get_enabled_roles cfg)
         \<and> create_task_json ev project role description payload_file = Inr task
         \<and> messaging_base_dir cfg = Some base
         \<and> tid = uuid4 ev
         \<and> run_ops (write_task_ops (base @ [''tasks'']) (base @ [''tasks'', tid @ ''.json''])
                      (json_dumps task)) s = (None, s')"
proof -
  from assms obtain cfg where
    cfg: "load_config_by_project_name ev project config_dir = Inr cfg"
    unfolding send_task_def by (auto split: sum.splits)
  from assms cfg have role: "role \<in> set (get_enabled_roles cfg)"
    unfolding send_task_def by (auto split: if_splits)
  from assms cfg role obtain task where
    task: "create_task_json ev project role description payload_file = Inr task"
    unfolding send_task_def by (auto split: sum.splits)
  from assms cfg role task obtain base where
    base: "messaging_base_dir cfg = Some base"
    unfolding send_task_def by (auto split: option.splits)
  have "run_ops (write_task_ops (base @ [''tasks'']) (base @ [''tasks'', uuid4 ev @ ''.json''])
                      (json_dumps task)) s = (None, s') \<and> tid = uuid4 ev"
    using assms cfg role task base task_id_of_created [OF task]
    unfolding send_task_def
    by (auto simp: Let_def split: prod.splits option.splits)
  with cfg role task base show ?thesis by blast
qed

lemma run_write_task_ops_steps:
  assumes "run_ops (write_task_ops d f t) s = (None, s')"
  shows "\<exists>s1 s2. fs_step (Mkdir d) s = Inr s1
               \<and> fs_step (OpenW f) s1 = Inr s2
               \<and> files s2 f = Some []
               \<and> fs_step (WriteText f t) s2 = Inr s'
               \<and> files s' = (files s)(f \<mapsto> t)"
  using assms unfolding write_task_ops_def
  by (auto split: sum.splits if_splits)

lemma demo_ancestors:
  "ancestors [''var'', ''demo'', ''tasks''] =
     [[''var''], [''var'', ''demo''], [''var'', ''demo'', ''tasks'']]"
  by (simp add: ancestors_def upt_rec)

lemma demo_send_plain:
  "send_task demo_env empty_fs ''demo'' ''builder'' ''build it'' None ''config'' =
     (Inr (uuid4 demo_env),
      \<lparr>files = [demo_task_file \<mapsto> json_dumps demo_plain_task],
       dirs = {[''var''], [''var'', ''demo''], [''var'', ''demo'', ''tasks'']}\<rparr>)"
proof -
  have "send_task demo_env empty_fs ''demo'' ''builder'' ''build it'' None ''config'' =
     (Inr (uuid4 demo_env),
      empty_fs\<lparr>dirs := dirs empty_fs \<union> set (ancestors ([''var'', ''demo''] @ [''tasks''])),
        files := (files empty_fs)([''var'', ''demo''] @ [''tasks'', uuid4 demo_env @ ''.json'']
                   \<mapsto> json_dumps demo_plain_task)\<rparr>)"
    by (rule send_task_success [where cfg = demo_config])
       (simp_all add: demo_env_def demo_config_def get_enabled_roles_def create_task_json_def
          demo_plain_task_def empty_fs_def demo_ancestors)
  then show ?thesis
    by (simp add: empty_fs_def demo_ancestors demo_env_def demo_task_file_def insert_commute)
qed

lemma demo_send_occupied:
  "send_task demo_env occupied_fs ''demo'' ''builder'' ''build it'' None ''config'' =
     (Inr (uuid4 demo_env),
      \<lparr>files = [demo_task_file \<mapsto> json_dumps demo_plain_task],
       dirs = {[''var''], [''var'', ''demo''], [''var'', ''demo'', ''tasks'']}\<rparr>)"
proof -
  have "send_task demo_env occupied_fs ''demo'' ''builder'' ''build it'' None ''config'' =
     (Inr (uuid4 demo_env),
      occupied_fs\<lparr>dirs := dirs occupied_fs \<union> set (ancestors ([''var'', ''demo''] @ [''tasks''])),
        files := (files occupied_fs)([''var'', ''demo''] @ [''tasks'', uuid4 demo_env @ ''.json'']
                   \<mapsto> json_dumps demo_plain_task)\<rparr>)"
    by (rule send_task_success [where cfg = demo_config])
       (simp_all add: demo_env_def demo_config_def get_enabled_roles_def create_task_json_def
          demo_plain_task_def occupied_fs_def demo_ancestors demo_task_file_def)
  then show ?thesis
    by (simp add: occupied_fs_def demo_ancestors demo_env_def demo_task_file_def insert_commute)
qed

lemma json_dumps_nonempty_head: "task \<noteq> [] \<Longrightarrow> hd (json_dumps task) = CHR ''{''"
  unfolding json_dumps_def by (cases task) simp_all

lemma demo_dumps_not_old: "json_dumps demo_plain_task \<noteq> ''old record''"
proof
  assume "json_dumps demo_plain_task = ''old record''"
  moreover have "hd (json_dumps demo_plain_task) = CHR ''{''"
    by (rule json_dumps_nonempty_head) (simp add: demo_plain_task_def base_task_def)
  ultimately show False by simp
qed

lemma demo_dumps_not_empty: "json_dumps demo_plain_task \<noteq> []"
  unfolding json_dumps_def demo_plain_task_def base_task_def by simp

text \<open>
  The path of claim C5 has a \<open>pending\<close> directory that the source does not use: after
  this successful call nothing exists at \<open><base_dir>/tasks/pending/<task_id>.json\<close>, and
  the record is at \<open><base_dir>/tasks/<task_id>.json\<close>.
\<close>

theorem pending_directory_counterexample:
  "fst (send_task demo_env empty_fs ''demo'' ''builder'' ''build it'' None ''config'')
     = Inr ''123e4567-e89b-42d3-a456-426614174000''
   \<and> files (snd (send_task demo_env empty_fs ''demo'' ''builder'' ''build it'' None ''config''))
        [''var'', ''demo'', ''tasks'', ''pending'', ''123e4567-e89b-42d3-a456-426614174000.json'']
     = None
   \<and> files (snd (send_task demo_env empty_fs ''demo'' ''builder'' ''build it'' None ''config''))
        [''var'', ''demo'', ''tasks'', ''123e4567-e89b-42d3-a456-426614174000.json'']
     = Some (json_dumps demo_plain_task)"
  unfolding demo_send_plain by (simp add: demo_task_file_def demo_env_def)

text \<open>
  Claim C5, as amended: a successful \<open>send_task\<close> creates the record file at
  \<open><base_dir>/tasks/<task_id>.json\<close>, directly in the \<open>tasks\<close> directory (the source has no
  \<open>pending\<close> component), where \<open>base_dir\<close> is the loaded configuration's messaging base
  directory and \<open>task_id\<close> is the record's identifier; the file holds the serialised
  record and no other file changes.
\<close>

theorem task_file_location:
  assumes "send_task ev s project role description payload_file config_dir = (Inr tid, s')"
  shows "\<exists>cfg base task.
           load_config_by_project_name ev project config_dir = Inr cfg
         \<and> messaging_base_dir cfg = Some base
         \<and> create_task_json ev project role description payload_file = Inr task
         \<and> map_of task ''task_id'' = Some (JStr tid)
         \<and> files s' = (files s)(base @ [''tasks'', tid @ ''.json''] \<mapsto> json_dumps task)"
proof -
  from send_task_returns [OF assms] obtain cfg task base where
    h: "load_config_by_project_name ev project config_dir = Inr cfg"
       "create_task_json ev project role description payload_file = Inr task"
       "messaging_base_dir cfg = Some base" "tid = uuid4 ev"
       "run_ops (write_task_ops (base @ [''tasks'']) (base @ [''tasks'', tid @ ''.json''])
                      (json_dumps task)) s = (None, s')"
    by blast
  from run_write_task_ops_steps [OF h(5)]
  have "files s' = (files s)(base @ [''tasks'', tid @ ''.json''] \<mapsto> json_dumps task)"
    by blast
  with h task_id_of_created [OF h(2)] show ?thesis by blast
qed

theorem task_file_location_witness:
  "send_task demo_env empty_fs ''demo'' ''builder'' ''build it'' None ''config'' =
     (Inr (uuid4 demo_env),
      \<lparr>files = [demo_task_file \<mapsto> json_dumps demo_plain_task],
       dirs = {[''var''], [''var'', ''demo''], [''var'', ''demo'', ''tasks'']}\<rparr>)
   \<and> (\<exists>cfg base task.
           load_config_by_project_name demo_env ''demo'' ''config'' = Inr cfg
         \<and> messaging_base_dir cfg = Some base
         \<and> create_task_json demo_env ''demo'' ''builder'' ''build it'' None = Inr task
         \<and> map_of task ''task_id'' = Some (JStr (uuid4 demo_env))
         \<and> [demo_task_file \<mapsto> json_dumps demo_plain_task]
             = (files empty_fs)(base @ [''tasks'', uuid4 demo_env @ ''.json''] \<mapsto> json_dumps task))"
  using task_file_location [OF demo_send_plain] demo_send_plain by simp

text \<open>
  Against claim C2 as written: a record file named after the new identifier is already
  present, the call succeeds all the same, and the old contents are gone.
\<close>

theorem duplicate_task_counterexample:
  "files occupied_fs demo_task_file = Some ''old record''
   \<and> fst (send_task demo_env occupied_fs ''demo'' ''builder'' ''build it'' None ''config'')
       = Inr ''123e4567-e89b-42d3-a456-426614174000''
   \<and> files (snd (send_task demo_env occupied_fs ''demo'' ''builder'' ''build it'' None ''config''))
        demo_task_file = Some (json_dumps demo_plain_task)
   \<and> json_dumps demo_plain_task \<noteq> ''old record''"
  unfolding demo_send_occupied using demo_dumps_not_old
  by (simp add: occupied_fs_def demo_env_def)

text \<open>
  Claim C2, as amended: when a record file named after the new task's identifier is already
  present, \<open>send_task\<close> does not fail on that account: opening in write mode truncates the
  existing file and the new record replaces its contents (the producer has no duplicate
  check).
\<close>

theorem existing_record_overwritten:
  assumes "load_config_by_project_name ev project config_dir = Inr cfg"
    and "role \<in> set (get_enabled_roles cfg)"
    and "create_task_json ev project role description payload_file = Inr task"
    and "messaging_base_dir cfg = Some base"
    and "\<not> list_ex (\<lambda>q. files s q \<noteq> None) (ancestors (base @ [''tasks'']))"
    and "base @ [''tasks'', uuid4 ev @ ''.json''] \<notin> dirs s"
    and "files s (base @ [''tasks'', uuid4 ev @ ''.json'']) = Some old"
  shows "fst (send_task ev s project role description payload_file config_dir)
           = Inr (uuid4 ev)
       \<and> files (snd (send_task ev s project role description payload_file config_dir))
           (base @ [''tasks'', uuid4 ev @ ''.json'']) = Some (json_dumps task)"
  unfolding send_task_success [OF assms(1-6)] by simp

theorem existing_record_overwritten_witness:
  "files occupied_fs ([''var'', ''demo''] @ [''tasks'', uuid4 demo_env @ ''.json''])
     = Some ''old record''
   \<and> fst (send_task demo_env occupied_fs ''demo'' ''builder'' ''build it'' None ''config'')
       = Inr (uuid4 demo_env)
   \<and> files (snd (send_task demo_env occupied_fs ''demo'' ''builder'' ''build it'' None ''config''))
       ([''var'', ''demo''] @ [''tasks'', uuid4 demo_env @ ''.json''])
       = Some (json_dumps demo_plain_task)"
proof -
  have old: "files occupied_fs ([''var'', ''demo''] @ [''tasks'', uuid4 demo_env @ ''.json''])
     = Some ''old record''"
    by (simp add: occupied_fs_def demo_task_file_def demo_env_def)
  have "fst (send_task demo_env occupied_fs ''demo'' ''builder'' ''build it'' None ''config'')
       = Inr (uuid4 demo_env)
   \<and> files (snd (send_task demo_env occupied_fs ''demo'' ''builder'' ''build it'' None ''config''))
       ([''var'', ''demo''] @ [''tasks'', uuid4 demo_env @ ''.json''])
       = Some (json_dumps demo_plain_task)"
    by (rule existing_record_overwritten [where cfg = demo_config and old = "''old record''"])
       (simp_all add: demo_env_def demo_config_def get_enabled_roles_def create_task_json_def
          demo_plain_task_def occupied_fs_def demo_ancestors demo_task_file_def)
  with old show ?thesis by blast
qed

text \<open>
  Against claim C3 as written: the operations of a successful call are a \<open>mkdir\<close>, an
  \<open>open\<close> of the final path and a write to the final path; after the second of them the
  final name exists with empty contents, which is not the record's text.
\<close>

theorem temporary_file_counterexample:
  "fst (send_task demo_env empty_fs ''demo'' ''builder'' ''build it'' None ''config'')
     = Inr ''123e4567-e89b-42d3-a456-426614174000''
   \<and> snd (send_task demo_env empty_fs ''demo'' ''builder'' ''build it'' None ''config'')
     = snd (run_ops (write_task_ops demo_tasks_dir demo_task_file (json_dumps demo_plain_task))
              empty_fs)
   \<and> write_task_ops demo_tasks_dir demo_task_file (json_dumps demo_plain_task)
     = [Mkdir demo_tasks_dir, OpenW demo_task_file,
        WriteText demo_task_file (json_dumps demo_plain_task)]
   \<and> files (snd (run_ops [Mkdir demo_tasks_dir, OpenW demo_task_file] empty_fs)) demo_task_file
     = Some []
   \<and> json_dumps demo_plain_task \<noteq> []"
  unfolding demo_send_plain using demo_dumps_not_empty
  by (simp add: write_task_ops_def demo_tasks_dir_def demo_task_file_def empty_fs_def
        demo_ancestors is_dir_def demo_env_def insert_commute)

text \<open>
  Claim C3, as amended: the serialised record is written directly to its final path
  \<open><task_id>.json\<close>: after the directory is made, the file is created or truncated under
  its final name, where it is visible with empty contents, and the JSON text is then written
  into it; no temporary path and no rename take part.
\<close>

theorem task_file_written_in_place:
  assumes "send_task ev s project role description payload_file config_dir = (Inr tid, s')"
  shows "\<exists>cfg base task s1 s2.
           load_config_by_project_name ev project config_dir = Inr cfg
         \<and> messaging_base_dir cfg = Some base
         \<and> create_task_json ev project role description payload_file = Inr task
         \<and> fs_step (Mkdir (base @ [''tasks''])) s = Inr s1
         \<and> fs_step (OpenW (base @ [''tasks'', tid @ ''.json''])) s1 = Inr s2
         \<and> files s2 (base @ [''tasks'', tid @ ''.json'']) = Some []
         \<and> fs_step (WriteText (base @ [''tasks'', tid @ ''.json'']) (json_dumps task)) s2
             = Inr s'"
proof -
  from send_task_returns [OF assms] obtain cfg task base where
    h: "load_config_by_project_name ev project config_dir = Inr cfg"
       "create_task_json ev project role description payload_file = Inr task"
       "messaging_base_dir cfg = Some base"
       "run_ops (write_task_ops (base @ [''tasks'']) (base @ [''tasks'', tid @ ''.json''])
                      (json_dumps task)) s = (None, s')"
    by blast
  from run_write_task_ops_steps [OF h(4)] h(1-3) show ?thesis by blast
qed

theorem task_file_written_in_place_witness:
  "send_task demo_env empty_fs ''demo'' ''builder'' ''build it'' None ''config'' =
     (Inr (uuid4 demo_env),
      \<lparr>files = [demo_task_file \<mapsto> json_dumps demo_plain_task],
       dirs = {[''var''], [''var'', ''demo''], [''var'', ''demo'', ''tasks'']}\<rparr>)
   \<and> (\<exists>cfg base task s1 s2.
           load_config_by_project_name demo_env ''demo'' ''config'' = Inr cfg
         \<and> messaging_base_dir cfg = Some base
         \<and> create_task_json demo_env ''demo'' ''builder'' ''build it'' None = Inr task
         \<and> fs_step (Mkdir (base @ [''tasks''])) empty_fs = Inr s1
         \<and> fs_step (OpenW (base @ [''tasks'', uuid4 demo_env @ ''.json''])) s1 = Inr s2
         \<and> files s2 (base @ [''tasks'', uuid4 demo_env @ ''.json'']) = Some []
         \<and> fs_step (WriteText (base @ [''tasks'', uuid4 demo_env @ ''.json''])
                      (json_dumps task)) s2
             = Inr \<lparr>files = [demo_task_file \<mapsto> json_dumps demo_plain_task],
                    dirs = {[''var''], [''var'', ''demo''], [''var'', ''demo'', ''tasks'']}\<rparr>)"
  using task_file_written_in_place [OF demo_send_plain] demo_send_plain by blast

lemma create_task_json_error:
  assumes "create_task_json ev project role description payload_file = Inl e"
  shows "\<exists>x. e = PayloadRaised x \<and> truthy payload_file
             \<and> load_payload ev (the payload_file) = Inl x"
  using assms unfolding create_task_json_def
  by (auto simp: Let_def split: if_splits sum.splits)

lemma fs_step_error_kind: "fs_step x s = Inl e \<Longrightarrow> e \<noteq> InvalidRole m"
  by (cases x) (auto split: if_splits option.splits)

lemma run_ops_error_kind: "run_ops xs s = (Some e, s') \<Longrightarrow> e \<noteq> InvalidRole m"
proof (induction xs arbitrary: s)
  case Nil
  then show ?case by simp
next
  case (Cons x xs)
  show ?case
  proof (cases "fs_step x s")
    case (Inl e')
    with Cons.prems have "e = e'" by simp
    with Inl fs_step_error_kind show ?thesis by blast
  next
    case (Inr s1)
    with Cons.prems have "run_ops xs s1 = (Some e, s')" by simp
    then show ?thesis by (rule Cons.IH)
  qed
qed

lemma send_task_valid_role_error:
  assumes cfg: "load_config_by_project_name ev project config_dir = Inr cfg"
    and role: "role \<in> set (get_enabled_roles cfg)"
  shows "fst (send_task ev s project role description payload_file config_dir)
           \<noteq> Inl (InvalidRole m)"
proof (cases "create_task_json ev project role description payload_file")
  case (Inl e)
  from create_task_json_error [OF Inl] obtain x where "e = PayloadRaised x" by blast
  with cfg role Inl show ?thesis unfolding send_task_def by simp
next
  case (Inr task)
  show ?thesis
  proof (cases "messaging_base_dir cfg")
    case None
    with cfg role Inr show ?thesis unfolding send_task_def by simp
  next
    case (Some base)
    obtain r s' where run:
      "run_ops (write_task_ops (base @ [''tasks'']) (base @ [''tasks'', uuid4 ev @ ''.json''])
                 (json_dumps task)) s = (r, s')"
      by (cases "run_ops (write_task_ops (base @ [''tasks''])
                   (base @ [''tasks'', uuid4 ev @ ''.json'']) (json_dumps task)) s") blast
    show ?thesis
    proof (cases r)
      case None
      with cfg role Inr Some run task_id_of_created [OF Inr] show ?thesis
        unfolding send_task_def by (simp add: Let_def)
    next
      case (Some e)
      with run run_ops_error_kind have "e \<noteq> InvalidRole m" by blast
      with cfg role Inr \<open>messaging_base_dir cfg = Some base\<close> Some run
        task_id_of_created [OF Inr]
      show ?thesis unfolding send_task_def by (simp add: Let_def)
    qed
  qed
qed

text \<open>
  Claim C8: when the configuration loader raises, when the role is not enabled, and when
  the payload file cannot be opened or decoded, \<open>send_task\<close> returns the error with the
  directory tree exactly as it was: no directory made, no file written. The second part
  holds for every payload file and every outcome of loading it, so an invalid role is
  rejected before the task dictionary is built.
\<close>

theorem send_task_error_before_write:
  "(load_config_by_project_name ev project config_dir = Inl x \<longrightarrow>
      send_task ev s project role description payload_file config_dir
        = (Inl (ConfigLoaderRaised x), s))
   \<and> (load_config_by_project_name ev project config_dir = Inr cfg
        \<and> role \<notin> set (get_enabled_roles cfg) \<longrightarrow>
      send_task ev s project role description payload_file config_dir
        = (Inl (InvalidRole (invalid_role_message role (get_enabled_roles cfg))), s))
   \<and> (load_config_by_project_name ev project config_dir = Inr cfg
        \<and> role \<in> set (get_enabled_roles cfg)
        \<and> truthy payload_file \<and> load_payload ev (the payload_file) = Inl y \<longrightarrow>
      send_task ev s project role description payload_file config_dir
        = (Inl (PayloadRaised y), s))"
  unfolding send_task_def create_task_json_def by (simp add: Let_def)

theorem send_task_error_before_write_witness:
  "send_task demo_env occupied_fs ''unknown'' ''builder'' ''build it'' None ''config''
     = (Inl (ConfigLoaderRaised ''FileNotFoundError''), occupied_fs)
   \<and> send_task demo_env occupied_fs ''demo'' ''reviewer'' ''build it'' (Some ''missing.json'')
        ''config''
     = (Inl (InvalidRole (invalid_role_message ''reviewer'' [''architect'', ''builder''])),
        occupied_fs)
   \<and> send_task demo_env occupied_fs ''demo'' ''builder'' ''build it'' (Some ''missing.json'')
        ''config''
     = (Inl (PayloadRaised ''FileNotFoundError''), occupied_fs)"
  using send_task_error_before_write
          [of demo_env "''unknown''" "''config''" "''FileNotFoundError''" occupied_fs
              "''builder''" "''build it''" None demo_config "''x''"]
        send_task_error_before_write
          [of demo_env "''demo''" "''config''" "''x''" occupied_fs
              "''reviewer''" "''build it''" "Some ''missing.json''" demo_config "''x''"]
        send_task_error_before_write
          [of demo_env "''demo''" "''config''" "''x''" occupied_fs
              "''builder''" "''build it''" "Some ''missing.json''" demo_config
              "''FileNotFoundError''"]
  by (simp add: demo_env_def demo_config_def get_enabled_roles_def)

text \<open>
  Against claim C1 as written: the role is enabled, the payload file cannot be opened, and
  the call fails with the loader's exception instead of returning an identifier.
\<close>

theorem valid_role_counterexample:
  "load_config_by_project_name demo_env ''demo'' ''config'' = Inr demo_config
   \<and> ''builder'' \<in> set (get_enabled_roles demo_config)
   \<and> send_task demo_env empty_fs ''demo'' ''builder'' ''build it'' (Some ''missing.json'')
        ''config''
     = (Inl (PayloadRaised ''FileNotFoundError''), empty_fs)"
  by (simp add: send_task_def create_task_json_def demo_env_def demo_config_def
        get_enabled_roles_def)

text \<open>
  Claim C1, as amended: a failure of the configuration loader reaches the caller; with a
  configuration loaded, \<open>send_task\<close> fails with the invalid-role error exactly when the role
  is not in the configuration's \<open>enabled_roles\<close>; and when the role is enabled it builds the
  task and returns the new identifier provided that the payload file, when given, loads,
  the configuration names a messaging base directory and the task file can be created.
\<close>

theorem send_task_outcome:
  "(load_config_by_project_name ev project config_dir = Inl x \<longrightarrow>
      fst (send_task ev s project role description payload_file config_dir)
        = Inl (ConfigLoaderRaised x))
   \<and> (load_config_by_project_name ev project config_dir = Inr cfg \<longrightarrow>
        ((\<exists>m. fst (send_task ev s project role description payload_file config_dir)
                = Inl (InvalidRole m))
         \<longleftrightarrow> role \<notin> set (get_enabled_roles cfg)))
   \<and> (load_config_by_project_name ev project config_dir = Inr cfg
        \<and> role \<in> set (get_enabled_roles cfg)
        \<and> create_task_json ev project role description payload_file = Inr task
        \<and> messaging_base_dir cfg = Some base
        \<and> \<not> list_ex (\<lambda>q. files s q \<noteq> None) (ancestors (base @ [''tasks'']))
        \<and> base @ [''tasks'', uuid4 ev @ ''.json''] \<notin> dirs s \<longrightarrow>
      fst (send_task ev s project role description payload_file config_dir)
        = Inr (uuid4 ev)
      \<and> map_of task ''task_id'' = Some (JStr (uuid4 ev)))"
proof (intro conjI impI)
  assume "load_config_by_project_name ev project config_dir = Inl x"
  then show "fst (send_task ev s project role description payload_file config_dir)
               = Inl (ConfigLoaderRaised x)"
    unfolding send_task_def by simp
next
  assume cfg: "load_config_by_project_name ev project config_dir = Inr cfg"
  show "(\<exists>m. fst (send_task ev s project role description payload_file config_dir)
                = Inl (InvalidRole m))
         \<longleftrightarrow> role \<notin> set (get_enabled_roles cfg)"
  proof
    assume "\<exists>m. fst (send_task ev s project role description payload_file config_dir)
                = Inl (InvalidRole m)"
    with send_task_valid_role_error [OF cfg] show "role \<notin> set (get_enabled_roles cfg)"
      by blast
  next
    assume "role \<notin> set (get_enabled_roles cfg)"
    with cfg show "\<exists>m. fst (send_task ev s project role description payload_file config_dir)
                = Inl (InvalidRole m)"
      unfolding send_task_def by simp
  qed
next
  assume h: "load_config_by_project_name ev project config_dir = Inr cfg
        \<and> role \<in> set (get_enabled_roles cfg)
        \<and> create_task_json ev project role description payload_file = Inr task
        \<and> messaging_base_dir cfg = Some base
        \<and> \<not> list_ex (\<lambda>q. files s q \<noteq> None) (ancestors (base @ [''tasks'']))
        \<and> base @ [''tasks'', uuid4 ev @ ''.json''] \<notin> dirs s"
  then show "fst (send_task ev s project role description payload_file config_dir)
        = Inr (uuid4 ev)"
    by (simp add: send_task_success)
  from h have "create_task_json ev project role description payload_file = Inr task"
    by blast
  then show "map_of task ''task_id'' = Some (JStr (uuid4 ev))"
    by (rule task_id_of_created)
qed

theorem send_task_outcome_witness:
  "fst (send_task demo_env empty_fs ''unknown'' ''builder'' ''build it'' None ''config'')
     = Inl (ConfigLoaderRaised ''FileNotFoundError'')
   \<and> (\<exists>m. fst (send_task demo_env empty_fs ''demo'' ''reviewer'' ''build it'' None ''config'')
            = Inl (InvalidRole m))
   \<and> fst (send_task demo_env empty_fs ''demo'' ''builder'' ''build it'' (Some ''extra.json'')
            ''config'')
     = Inr (uuid4 demo_env)
   \<and> map_of demo_task ''task_id'' = Some (JStr (uuid4 demo_env))"
  using send_task_outcome
          [of demo_env "''unknown''" "''config''" "''FileNotFoundError''" empty_fs
              "''builder''" "''build it''" None demo_config demo_task "[''var'', ''demo'']"]
        send_task_outcome
          [of demo_env "''demo''" "''config''" "''x''" empty_fs
              "''reviewer''" "''build it''" None demo_config demo_task "[''var'', ''demo'']"]
        send_task_outcome
          [of demo_env "''demo''" "''config''" "''x''" empty_fs
              "''builder''" "''build it''" "Some ''extra.json''" demo_config demo_task
              "[''var'', ''demo'']"]
        demo_create
  by (simp add: demo_env_def demo_config_def get_enabled_roles_def empty_fs_def demo_ancestors)

section \<open>The decoder reads back what the encoder writes\<close>




















lemma newline_indent_Cons: "newline_indent l = CHR 0x0A # replicate (2 * l) CHR '' ''"
  by (simp add: newline_indent_def)




lemma encode_basestring_ascii_Cons:
  "encode_basestring_ascii k @ s = CHR 0x22 # concat (map escape_char k) @ CHR 0x22 # s"
  by (simp add: encode_basestring_ascii_def)



























end
